theory Spec2Isabelle
  imports Complex_Main
begin

section \<open>Data model\<close>

text \<open>
  The dashboard of \<^verbatim>\<open>app.py\<close> works on pandas data frames. A frame is modelled
  column-wise, as pandas stores it: a row index (the labels of the rows) and an ordered
  list of named columns. Three kinds of column occur in the trip data: timestamps
  (\<^verbatim>\<open>datetime64[ns]\<close>, a missing value is \<^verbatim>\<open>NaT\<close>), floating-point numbers (a missing
  value is \<^verbatim>\<open>NaN\<close>) and text.

  A timestamp is the number of nanoseconds since 1970-01-01T00:00, a calendar date the
  number of days since 1970-01-01. Floating-point cells are exact rationals tagged with
  their precision: rounding is not modelled, the precision tag is.
\<close>

type_synonym timestamp = int
type_synonym date = int

datatype precision = Float32 | Float64

datatype series =
    DatetimeSeries "timestamp option list"
  | FloatSeries precision "rat option list"
  | ObjectSeries "string list"

record dataframe =
  index :: "nat list"
  columns :: "(string \<times> series) list"

datatype error =
    KeyError string
  | AttributeError
  | TypeError
  | ValueError
  | FileNotFoundError string

definition ns_per_day :: int where
  "ns_per_day = 86400 * 1000000000"

text \<open>\<^verbatim>\<open>Timestamp.date()\<close>: the calendar day a timestamp falls on.\<close>

definition date_of :: "timestamp \<Rightarrow> date" where
  "date_of t = t div ns_per_day"

text \<open>
  Calendar dates written as year, month and day, by the day count of Python's
  \<^verbatim>\<open>datetime\<close> module (\<^verbatim>\<open>_ymd2ord\<close>), shifted so that 1970-01-01 is day 0.
\<close>

definition is_leap :: "int \<Rightarrow> bool" where
  "is_leap y = (if y mod 4 = 0 then (if y mod 100 = 0 then y mod 400 = 0 else True) else False)"

definition days_before_year :: "int \<Rightarrow> int" where
  "days_before_year year = (let y = year - 1 in y * 365 + y div 4 - y div 100 + y div 400)"

definition days_before_month :: "int \<Rightarrow> int \<Rightarrow> int" where
  "days_before_month year month =
     [-1, 0, 31, 59, 90, 120, 151, 181, 212, 243, 273, 304, 334] ! nat month
       + (if month > 2 \<and> is_leap year then 1 else 0)"

definition ymd :: "int \<Rightarrow> int \<Rightarrow> int \<Rightarrow> date" where
  "ymd year month day = days_before_year year + days_before_month year month + day - 719163"

text \<open>Midnight of a calendar date, as a timestamp.\<close>

definition midnight :: "date \<Rightarrow> timestamp" where
  "midnight d = d * ns_per_day"

subsection \<open>Frame primitives\<close>

text \<open>\<^verbatim>\<open>len(s)\<close> of a column and \<^verbatim>\<open>len(df)\<close> of a frame (the length of its index).\<close>

fun series_len :: "series \<Rightarrow> nat" where
  "series_len (DatetimeSeries ts) = length ts"
| "series_len (FloatSeries p xs) = length xs"
| "series_len (ObjectSeries ss) = length ss"

definition len :: "dataframe \<Rightarrow> nat" where
  "len df = length (index df)"

text \<open>Every column of a frame has one cell per row of the index.\<close>

definition wf :: "dataframe \<Rightarrow> bool" where
  "wf df \<longleftrightarrow> list_all (\<lambda>(name, s). series_len s = length (index df)) (columns df)"

text \<open>\<^verbatim>\<open>df[name]\<close>: the column of that name, \<^verbatim>\<open>KeyError\<close> when there is none.\<close>

definition getitem :: "dataframe \<Rightarrow> string \<Rightarrow> error + series" where
  "getitem df name =
     (case map_of (columns df) name of
        None \<Rightarrow> Inl (KeyError name)
      | Some s \<Rightarrow> Inr s)"

text \<open>
  \<^verbatim>\<open>s.dt.date\<close>: the calendar date of every timestamp, \<^verbatim>\<open>NaT\<close> staying missing. The
  \<^verbatim>\<open>.dt\<close> accessor exists on datetime-like columns only.
\<close>

definition dt_date :: "series \<Rightarrow> error + date option list" where
  "dt_date s =
     (case s of
        DatetimeSeries ts \<Rightarrow> Inr (map (map_option date_of) ts)
      | _ \<Rightarrow> Inl AttributeError)"

text \<open>
  Element-wise comparison of a column of dates with one date. pandas compares a column
  of objects cell by cell and gives \<^verbatim>\<open>False\<close> at every missing cell, for \<^verbatim>\<open>>=\<close>
  and for \<^verbatim>\<open><=\<close> alike.
\<close>

definition ge_date :: "date option list \<Rightarrow> date \<Rightarrow> bool list" where
  "ge_date ds bound = map (\<lambda>c. case c of None \<Rightarrow> False | Some d \<Rightarrow> bound \<le> d) ds"

definition le_date :: "date option list \<Rightarrow> date \<Rightarrow> bool list" where
  "le_date ds bound = map (\<lambda>c. case c of None \<Rightarrow> False | Some d \<Rightarrow> d \<le> bound) ds"

text \<open>\<^verbatim>\<open>a & b\<close> on two boolean columns.\<close>

definition mask_and :: "bool list \<Rightarrow> bool list \<Rightarrow> bool list" where
  "mask_and a b = map (\<lambda>(x, y). x \<and> y) (zip a b)"

text \<open>
  \<^verbatim>\<open>df[mask]\<close>: the rows at which the mask is true, in their order, with their index
  labels; every column keeps its name and its type.
\<close>

definition select :: "bool list \<Rightarrow> 'a list \<Rightarrow> 'a list" where
  "select m xs = map fst (filter snd (zip xs m))"

fun select_series :: "bool list \<Rightarrow> series \<Rightarrow> series" where
  "select_series m (DatetimeSeries ts) = DatetimeSeries (select m ts)"
| "select_series m (FloatSeries p xs) = FloatSeries p (select m xs)"
| "select_series m (ObjectSeries ss) = ObjectSeries (select m ss)"

definition getitem_mask :: "dataframe \<Rightarrow> bool list \<Rightarrow> dataframe" where
  "getitem_mask df m =
     \<lparr> index = select m (index df),
       columns = map (\<lambda>(name, s). (name, select_series m s)) (columns df) \<rparr>"

section \<open>The date-range filter\<close>

text \<open>
  \<^verbatim>\<open>filter_data(df, start_date, end_date)\<close>; the dashboard computes the same mask
  inline (\<^verbatim>\<open>mask\<close>, \<^verbatim>\<open>filtered_df\<close>) from the two ends of the chosen range.
\<close>

definition filter_data :: "dataframe \<Rightarrow> date \<Rightarrow> date \<Rightarrow> error + dataframe" where
  "filter_data df start_date end_date =
     (case getitem df ''pickup_datetime'' of
        Inl e \<Rightarrow> Inl e
      | Inr col \<Rightarrow>
          (case dt_date col of
             Inl e \<Rightarrow> Inl e
           | Inr dates \<Rightarrow>
               Inr (getitem_mask df
                      (mask_and (ge_date dates start_date) (le_date dates end_date)))))"

text \<open>The pickup dates of the rows of a frame, one cell per row (\<^verbatim>\<open>None\<close> is \<^verbatim>\<open>NaT\<close>).\<close>

definition pickup_dates :: "dataframe \<Rightarrow> date option list" where
  "pickup_dates df =
     (case getitem df ''pickup_datetime'' of
        Inr (DatetimeSeries ts) \<Rightarrow> map (map_option date_of) ts
      | _ \<Rightarrow> [])"

section \<open>Aggregation\<close>

text \<open>The cells of a column that are not missing (\<^verbatim>\<open>skipna\<close>, the pandas default).\<close>

fun dropna :: "'a option list \<Rightarrow> 'a list" where
  "dropna [] = []"
| "dropna (None # xs) = dropna xs"
| "dropna (Some x # xs) = x # dropna xs"

text \<open>
  \<^verbatim>\<open>Series.min()\<close> and \<^verbatim>\<open>Series.max()\<close> of a timestamp column: missing cells are
  skipped, and the result is \<^verbatim>\<open>NaT\<close> when nothing is left.
\<close>

definition series_min :: "timestamp option list \<Rightarrow> timestamp option" where
  "series_min ts = (case dropna ts of [] \<Rightarrow> None | x # xs \<Rightarrow> Some (fold min xs x))"

definition series_max :: "timestamp option list \<Rightarrow> timestamp option" where
  "series_max ts = (case dropna ts of [] \<Rightarrow> None | x # xs \<Rightarrow> Some (fold max xs x))"

text \<open>
  \<^verbatim>\<open>df["pickup_datetime"].min().date()\<close> and the same with \<^verbatim>\<open>max\<close>: the ends of the
  date span of a table. \<^verbatim>\<open>NaT.date()\<close> is \<^verbatim>\<open>NaT\<close>.
\<close>

definition min_date :: "dataframe \<Rightarrow> error + date option" where
  "min_date df =
     (case getitem df ''pickup_datetime'' of
        Inl e \<Rightarrow> Inl e
      | Inr (DatetimeSeries ts) \<Rightarrow> Inr (map_option date_of (series_min ts))
      | Inr _ \<Rightarrow> Inl AttributeError)"

definition max_date :: "dataframe \<Rightarrow> error + date option" where
  "max_date df =
     (case getitem df ''pickup_datetime'' of
        Inl e \<Rightarrow> Inl e
      | Inr (DatetimeSeries ts) \<Rightarrow> Inr (map_option date_of (series_max ts))
      | Inr _ \<Rightarrow> Inl AttributeError)"

text \<open>
  \<^verbatim>\<open>df.resample('D', on='pickup_datetime').size()\<close>. The bins are the calendar days
  from the day of the earliest timestamp to the day of the latest one, each labelled by
  its day; a row with a missing timestamp belongs to no bin. An empty column gives an
  empty result; a column of missing cells only has no first day, and pandas raises.
\<close>

definition resample_size :: "timestamp option list \<Rightarrow> error + (date \<times> int) list" where
  "resample_size ts =
     (if ts = [] then Inr []
      else
        (case (series_min ts, series_max ts) of
           (Some lo, Some hi) \<Rightarrow>
             Inr (map (\<lambda>d. (d, int (length (filter (\<lambda>t. date_of t = d) (dropna ts)))))
                    [date_of lo..date_of hi])
         | _ \<Rightarrow> Inl ValueError))"

definition aggregate_daily_trips :: "dataframe \<Rightarrow> error + (date \<times> int) list" where
  "aggregate_daily_trips df =
     (case getitem df ''pickup_datetime'' of
        Inl e \<Rightarrow> Inl e
      | Inr (DatetimeSeries ts) \<Rightarrow> resample_size ts
      | Inr _ \<Rightarrow> Inl TypeError)"

text \<open>
  \<^verbatim>\<open>Series.mean()\<close> and \<^verbatim>\<open>Series.sum()\<close> of a numeric column: missing cells are skipped;
  the mean of no cells is \<^verbatim>\<open>NaN\<close> (here \<^verbatim>\<open>None\<close>), their sum is 0. The metric columns of
  the trip data are numeric; the other kinds of column are taken to raise.
\<close>

fun mean :: "series \<Rightarrow> error + rat option" where
  "mean (FloatSeries p xs) =
     (let ys = dropna xs
      in if ys = [] then Inr None else Inr (Some (sum_list ys / of_nat (length ys))))"
| "mean _ = Inl TypeError"

fun sum_series :: "series \<Rightarrow> error + rat" where
  "sum_series (FloatSeries p xs) = Inr (sum_list (dropna xs))"
| "sum_series _ = Inl TypeError"

text \<open>
  The four figures of the metrics row (\<^verbatim>\<open>st.metric\<close>), before they are formatted:
  \<^verbatim>\<open>len(filtered_df)\<close>, the two means and the sum of the fares. Formatting a float with
  \<^verbatim>\<open>:.2f\<close> does not raise, on \<^verbatim>\<open>NaN\<close> either (it prints \<^verbatim>\<open>nan\<close>).
\<close>

record metrics =
  total_trips :: int
  avg_distance :: "rat option"
  avg_fare :: "rat option"
  total_revenue :: rat

definition summarize :: "dataframe \<Rightarrow> error + metrics" where
  "summarize filtered_df =
     (case getitem filtered_df ''trip_miles'' of
        Inl e \<Rightarrow> Inl e
      | Inr miles \<Rightarrow>
     (case mean miles of
        Inl e \<Rightarrow> Inl e
      | Inr avg_miles \<Rightarrow>
     (case getitem filtered_df ''base_passenger_fare'' of
        Inl e \<Rightarrow> Inl e
      | Inr fare \<Rightarrow>
     (case mean fare of
        Inl e \<Rightarrow> Inl e
      | Inr avg \<Rightarrow>
     (case sum_series fare of
        Inl e \<Rightarrow> Inl e
      | Inr revenue \<Rightarrow>
          Inr \<lparr> total_trips = int (len filtered_df), avg_distance = avg_miles,
                avg_fare = avg, total_revenue = revenue \<rparr>)))))"

section \<open>The dashboard\<close>

text \<open>
  The authorized flow from the column check on, for the table \<^verbatim>\<open>df\<close> as it stands
  after the datetime conversion and for the date range the sidebar widget returned.
  \<^verbatim>\<open>st.stop()\<close> ends the run: nothing after it is computed.
\<close>

definition required_cols :: "string list" where
  "required_cols =
     [''pickup_datetime'', ''dropoff_datetime'', ''trip_miles'', ''base_passenger_fare'']"

definition missing_cols :: "dataframe \<Rightarrow> string list" where
  "missing_cols df = filter (\<lambda>col. col \<notin> set (map fst (columns df))) required_cols"

datatype outcome =
    MissingRequiredColumns "string list"
  | Raised error
  | Rendered metrics "(date \<times> int) list option"

definition dashboard :: "dataframe \<Rightarrow> date \<times> date \<Rightarrow> outcome" where
  "dashboard df date_range =
     (let missing = missing_cols df in
      if missing \<noteq> [] then MissingRequiredColumns missing
      else
        (case filter_data df (fst date_range) (snd date_range) of
           Inl e \<Rightarrow> Raised e
         | Inr filtered_df \<Rightarrow>
             (case summarize filtered_df of
                Inl e \<Rightarrow> Raised e
              | Inr m \<Rightarrow>
                  if len filtered_df \<noteq> 0 then
                    (case aggregate_daily_trips filtered_df of
                       Inl e \<Rightarrow> Raised e
                     | Inr daily_trips \<Rightarrow> Rendered m (Some daily_trips))
                  else Rendered m None)))"

section \<open>Loading\<close>

text \<open>
  The files the process can read: a path leads to the table stored in a parquet file,
  or to nothing when there is no readable file.
\<close>

type_synonym filesystem = "string \<rightharpoonup> dataframe"

text \<open>
  \<^verbatim>\<open>pd.read_parquet(path, columns=...)\<close>: the stored table, restricted to the requested
  columns in the requested order; asking for a column the file does not have raises.
\<close>

fun pick_columns :: "(string \<times> series) list \<Rightarrow> string list \<Rightarrow> error + (string \<times> series) list" where
  "pick_columns cs [] = Inr []"
| "pick_columns cs (n # ns) =
     (case map_of cs n of
        None \<Rightarrow> Inl (KeyError n)
      | Some s \<Rightarrow>
          (case pick_columns cs ns of
             Inl e \<Rightarrow> Inl e
           | Inr rest \<Rightarrow> Inr ((n, s) # rest)))"

definition read_parquet :: "filesystem \<Rightarrow> string \<Rightarrow> string list option \<Rightarrow> error + dataframe" where
  "read_parquet fs file_path cols =
     (case fs file_path of
        None \<Rightarrow> Inl (FileNotFoundError file_path)
      | Some stored \<Rightarrow>
          (case cols of
             None \<Rightarrow> Inr stored
           | Some names \<Rightarrow>
               (case pick_columns (columns stored) names of
                  Inl e \<Rightarrow> Inl e
                | Inr cs \<Rightarrow> Inr \<lparr> index = index stored, columns = cs \<rparr>)))"

text \<open>
  \<^verbatim>\<open>s.astype('float32')\<close>: a numeric column changes its precision; timestamps cannot be
  cast, and text is taken not to spell numbers.
\<close>

fun astype_float32 :: "series \<Rightarrow> error + series" where
  "astype_float32 (FloatSeries p xs) = Inr (FloatSeries Float32 xs)"
| "astype_float32 (DatetimeSeries ts) = Inl TypeError"
| "astype_float32 (ObjectSeries ss) = Inl ValueError"

text \<open>\<^verbatim>\<open>df[name] = s\<close>: replaces the column of that name, or adds it at the end.\<close>

definition setitem :: "dataframe \<Rightarrow> string \<Rightarrow> series \<Rightarrow> dataframe" where
  "setitem df name s =
     (if name \<in> set (map fst (columns df))
      then df\<lparr>columns := map (\<lambda>(n, c). if n = name then (n, s) else (n, c)) (columns df)\<rparr>
      else df\<lparr>columns := columns df @ [(name, s)]\<rparr>)"

definition columns_to_use :: "string list" where
  "columns_to_use =
     [''pickup_datetime'', ''dropoff_datetime'', ''trip_miles'',
      ''base_passenger_fare'', ''dispatching_base_num'']"

text \<open>The body of \<^verbatim>\<open>load_data\<close>, as it runs on a cache miss.\<close>

definition narrow :: "dataframe \<Rightarrow> string \<Rightarrow> error + dataframe" where
  "narrow df name =
     (case getitem df name of
        Inl e \<Rightarrow> Inl e
      | Inr s \<Rightarrow>
          (case astype_float32 s of
             Inl e \<Rightarrow> Inl e
           | Inr s' \<Rightarrow> Inr (setitem df name s')))"

definition load_data_body :: "filesystem \<Rightarrow> string \<Rightarrow> error + dataframe" where
  "load_data_body fs file_path =
     (case read_parquet fs file_path (Some columns_to_use) of
        Inl e \<Rightarrow> Inl e
      | Inr df \<Rightarrow>
          (case narrow df ''trip_miles'' of
             Inl e \<Rightarrow> Inl e
           | Inr df' \<Rightarrow> narrow df' ''base_passenger_fare''))"

text \<open>
  The body of \<^verbatim>\<open>load_parquet_data\<close>, the loader the authorized flow calls: the whole
  file, as stored; a failed read is reported and gives \<^verbatim>\<open>None\<close>.
\<close>

definition load_parquet_data_body :: "filesystem \<Rightarrow> string \<Rightarrow> dataframe option" where
  "load_parquet_data_body fs file_path =
     (case read_parquet fs file_path None of
        Inl e \<Rightarrow> None
      | Inr df \<Rightarrow> Some df)"

subsection \<open>The cache\<close>

text \<open>
  \<^verbatim>\<open>st.cache_data\<close> keeps, for each function, the value returned for each argument
  together with the time it was stored, and returns it again while the entry is alive:
  with \<^verbatim>\<open>ttl\<close> seconds of life an entry stored at \<open>t\<close> is alive at every time before
  \<open>t + ttl\<close>, without \<^verbatim>\<open>ttl\<close> for ever. A call that raises stores nothing. The clock is
  a parameter, in seconds; \<open>reads\<close> counts the calls of \<^verbatim>\<open>pd.read_parquet\<close>.
\<close>

record process =
  load_data_cache :: "string \<rightharpoonup> dataframe \<times> nat"
  load_parquet_data_cache :: "string \<rightharpoonup> dataframe option \<times> nat"
  reads :: nat

definition cache_lookup :: "nat option \<Rightarrow> nat \<Rightarrow> (string \<rightharpoonup> 'v \<times> nat) \<Rightarrow> string \<Rightarrow> 'v option" where
  "cache_lookup ttl now cache key =
     (case cache key of
        None \<Rightarrow> None
      | Some (v, stored) \<Rightarrow>
          (case ttl of
             None \<Rightarrow> Some v
           | Some life \<Rightarrow> if now < stored + life then Some v else None))"

definition load_data :: "filesystem \<Rightarrow> nat \<Rightarrow> string \<Rightarrow> process \<Rightarrow> (error + dataframe) \<times> process" where
  "load_data fs now file_path st =
     (case cache_lookup (Some 3600) now (load_data_cache st) file_path of
        Some df \<Rightarrow> (Inr df, st)
      | None \<Rightarrow>
          (case load_data_body fs file_path of
             Inl e \<Rightarrow> (Inl e, st\<lparr>reads := reads st + 1\<rparr>)
           | Inr df \<Rightarrow>
               (Inr df,
                st\<lparr>load_data_cache := (load_data_cache st)(file_path \<mapsto> (df, now)),
                   reads := reads st + 1\<rparr>)))"

definition load_parquet_data :: "filesystem \<Rightarrow> nat \<Rightarrow> string \<Rightarrow> process \<Rightarrow> dataframe option \<times> process" where
  "load_parquet_data fs now file_path st =
     (case cache_lookup None now (load_parquet_data_cache st) file_path of
        Some r \<Rightarrow> (r, st)
      | None \<Rightarrow>
          (let r = load_parquet_data_body fs file_path
           in (r, st\<lparr>load_parquet_data_cache :=
                        (load_parquet_data_cache st)(file_path \<mapsto> (r, now)),
                      reads := reads st + 1\<rparr>)))"

section \<open>The password gate\<close>

text \<open>
  \<^verbatim>\<open>st.session_state\<close> and \<^verbatim>\<open>st.secrets\<close> are dictionaries from keys to values.
  \<^verbatim>\<open>password_entered\<close> is the callback of the password field: it runs when the user
  submits a password, which the field has stored under its key \<^verbatim>\<open>password\<close>.
\<close>

datatype val = Str string | Flag bool

type_synonym session_state = "string \<rightharpoonup> val"

definition password_entered :: "(string \<rightharpoonup> val) \<Rightarrow> session_state \<Rightarrow> error + session_state" where
  "password_entered secrets session =
     (case session ''password'' of
        None \<Rightarrow> Inr session
      | Some entered \<Rightarrow>
          (case secrets ''password'' of
             None \<Rightarrow> Inl (KeyError ''password'')
           | Some secret \<Rightarrow>
               if entered = secret
               then Inr ((session(''password_correct'' \<mapsto> Flag True))(''password'' := None))
               else Inr (session(''password_correct'' \<mapsto> Flag False))))"

section \<open>Example data\<close>

text \<open>
  The table of the end-to-end scenario: three trips, picked up on 2023-01-01, 2023-01-02
  and 2023-01-05, of 5, 3 and 1 miles, for 10, 8 and 4 dollars.
\<close>

definition scenario_table :: dataframe where
  "scenario_table =
     \<lparr> index = [0, 1, 2],
       columns =
         [(''pickup_datetime'',
             DatetimeSeries [Some (midnight (ymd 2023 1 1)), Some (midnight (ymd 2023 1 2)),
                             Some (midnight (ymd 2023 1 5))]),
          (''dropoff_datetime'',
             DatetimeSeries [Some (midnight (ymd 2023 1 1) + 1), Some (midnight (ymd 2023 1 2) + 1),
                             Some (midnight (ymd 2023 1 5) + 1)]),
          (''trip_miles'', FloatSeries Float64 [Some 5, Some 3, Some 1]),
          (''base_passenger_fare'', FloatSeries Float64 [Some 10, Some 8, Some 4]),
          (''dispatching_base_num'', ObjectSeries [''B02764'', ''B02764'', ''B02510''])] \<rparr>"

text \<open>Its trips of the first two days, and of the third and fourth day (none).\<close>

definition first_two_days :: dataframe where
  "first_two_days =
     \<lparr> index = [0, 1],
       columns =
         [(''pickup_datetime'',
             DatetimeSeries [Some (midnight (ymd 2023 1 1)), Some (midnight (ymd 2023 1 2))]),
          (''dropoff_datetime'',
             DatetimeSeries [Some (midnight (ymd 2023 1 1) + 1), Some (midnight (ymd 2023 1 2) + 1)]),
          (''trip_miles'', FloatSeries Float64 [Some 5, Some 3]),
          (''base_passenger_fare'', FloatSeries Float64 [Some 10, Some 8]),
          (''dispatching_base_num'', ObjectSeries [''B02764'', ''B02764''])] \<rparr>"

definition quiet_days :: dataframe where
  "quiet_days =
     \<lparr> index = [],
       columns =
         [(''pickup_datetime'', DatetimeSeries []),
          (''dropoff_datetime'', DatetimeSeries []),
          (''trip_miles'', FloatSeries Float64 []),
          (''base_passenger_fare'', FloatSeries Float64 []),
          (''dispatching_base_num'', ObjectSeries [])] \<rparr>"

text \<open>A table of two trips, the second of which has no pickup timestamp.\<close>

definition table_with_nat :: dataframe where
  "table_with_nat =
     \<lparr> index = [0, 1],
       columns =
         [(''pickup_datetime'', DatetimeSeries [Some (midnight (ymd 2023 1 1)), None]),
          (''dropoff_datetime'',
             DatetimeSeries [Some (midnight (ymd 2023 1 1) + 1), Some (midnight (ymd 2023 1 1) + 2)]),
          (''trip_miles'', FloatSeries Float64 [Some 5, Some 3]),
          (''base_passenger_fare'', FloatSeries Float64 [Some 10, Some 8]),
          (''dispatching_base_num'', ObjectSeries [''B02764'', ''B02764''])] \<rparr>"

text \<open>A table of one trip that has every column but \<^verbatim>\<open>dispatching_base_num\<close>.\<close>

definition table_without_dispatch :: dataframe where
  "table_without_dispatch =
     \<lparr> index = [0],
       columns =
         [(''pickup_datetime'', DatetimeSeries [Some (midnight (ymd 2023 1 1))]),
          (''dropoff_datetime'', DatetimeSeries [Some (midnight (ymd 2023 1 1) + 1)]),
          (''trip_miles'', FloatSeries Float64 [Some 5]),
          (''base_passenger_fare'', FloatSeries Float64 [Some 10])] \<rparr>"

text \<open>A table of one trip that lacks \<^verbatim>\<open>trip_miles\<close> and \<^verbatim>\<open>dropoff_datetime\<close>.\<close>

definition table_without_miles :: dataframe where
  "table_without_miles =
     \<lparr> index = [0],
       columns =
         [(''pickup_datetime'', DatetimeSeries [Some (midnight (ymd 2023 1 1))]),
          (''base_passenger_fare'', FloatSeries Float64 [Some 10]),
          (''dispatching_base_num'', ObjectSeries [''B02764''])] \<rparr>"

text \<open>
  A parquet file at the path the dashboard reads, storing the scenario's trips with a
  sixth column (the tips), every number in double precision.
\<close>

definition stored_trips :: dataframe where
  "stored_trips =
     \<lparr> index = [0, 1, 2],
       columns = columns scenario_table @ [(''tips'', FloatSeries Float64 [Some 2, Some 0, Some 1])] \<rparr>"

text \<open>The five columns of that file that \<^verbatim>\<open>load_data\<close> asks for, narrowed.\<close>

definition narrowed_trips :: dataframe where
  "narrowed_trips =
     \<lparr> index = [0, 1, 2],
       columns =
         [(''pickup_datetime'',
             DatetimeSeries [Some (midnight (ymd 2023 1 1)), Some (midnight (ymd 2023 1 2)),
                             Some (midnight (ymd 2023 1 5))]),
          (''dropoff_datetime'',
             DatetimeSeries [Some (midnight (ymd 2023 1 1) + 1), Some (midnight (ymd 2023 1 2) + 1),
                             Some (midnight (ymd 2023 1 5) + 1)]),
          (''trip_miles'', FloatSeries Float32 [Some 5, Some 3, Some 1]),
          (''base_passenger_fare'', FloatSeries Float32 [Some 10, Some 8, Some 4]),
          (''dispatching_base_num'', ObjectSeries [''B02764'', ''B02764'', ''B02510''])] \<rparr>"

definition data_path :: string where
  "data_path = ''data/Uber_cleaned_data.parquet''"

definition disk :: filesystem where
  "disk = [data_path \<mapsto> stored_trips]"

text \<open>A process that has cached nothing and read nothing.\<close>

definition fresh :: process where
  "fresh = \<lparr> load_data_cache = Map.empty, load_parquet_data_cache = Map.empty, reads = 0 \<rparr>"

text \<open>The secret store, and the session of a user who has typed a wrong password.\<close>

definition configured :: "string \<rightharpoonup> val" where
  "configured = [''password'' \<mapsto> Str ''correct horse'']"

definition wrong_attempt :: session_state where
  "wrong_attempt = [''data_loaded'' \<mapsto> Flag False, ''password'' \<mapsto> Str ''guess'']"

definition right_attempt :: session_state where
  "right_attempt = [''data_loaded'' \<mapsto> Flag False, ''password'' \<mapsto> Str ''correct horse'']"

section \<open>Properties\<close>

subsection \<open>Frames, dates and counts\<close>



lemma length_select_map:
  "length xs = length ys \<Longrightarrow> length (select (map p ys) xs) = length (filter p ys)"
  unfolding select_def by (induction xs ys rule: list_induct2) auto

lemma date_mask:
  "mask_and (ge_date ds a) (le_date ds b) =
     map (\<lambda>c. case c of None \<Rightarrow> False | Some d \<Rightarrow> a \<le> d \<and> d \<le> b) ds"
  unfolding mask_and_def ge_date_def le_date_def
  by (induction ds) (auto split: option.splits)


lemma wf_getitem:
  assumes "wf df" and "getitem df name = Inr s"
  shows "series_len s = length (index df)"
proof -
  from assms(2) have "map_of (columns df) name = Some s"
    by (simp add: getitem_def split: option.splits)
  then have "(name, s) \<in> set (columns df)"
    by (rule map_of_SomeD)
  with assms(1) show ?thesis
    by (auto simp: wf_def list_all_iff)
qed

lemma filter_data_datetime:
  assumes "getitem df ''pickup_datetime'' = Inr (DatetimeSeries ts)"
  shows "filter_data df a b =
           Inr (getitem_mask df
                  (map (\<lambda>c. case c of None \<Rightarrow> False | Some d \<Rightarrow> a \<le> d \<and> d \<le> b)
                     (map (map_option date_of) ts)))"
  using assms by (simp add: filter_data_def dt_date_def date_mask)




lemma fold_min_le: "fold min xs (x::int) \<le> x \<and> (\<forall>y \<in> set xs. fold min xs x \<le> y)"
proof (induction xs arbitrary: x)
  case Nil
  then show ?case by simp
next
  case (Cons a xs)
  from Cons.IH [of "min a x"] show ?case by auto
qed

lemma fold_max_ge: "x \<le> fold max xs (x::int) \<and> (\<forall>y \<in> set xs. y \<le> fold max xs x)"
proof (induction xs arbitrary: x)
  case Nil
  then show ?case by simp
next
  case (Cons a xs)
  from Cons.IH [of "max a x"] show ?case by auto
qed

lemma date_of_mono: "a \<le> b \<Longrightarrow> date_of a \<le> date_of b"
  unfolding date_of_def ns_per_day_def by (rule zdiv_mono1) simp_all

lemma set_dropna: "set (dropna xs) = {x. Some x \<in> set xs}"
  by (induction xs rule: dropna.induct) auto

lemma series_min_le:
  assumes "series_min ts = Some lo" and "Some t \<in> set ts"
  shows "date_of lo \<le> date_of t"
proof -
  from assms(1) obtain x xs where xs: "dropna ts = x # xs" and lo: "lo = fold min xs x"
    by (auto simp: series_min_def split: list.splits)
  from assms(2) have "t \<in> set (dropna ts)" by (simp add: set_dropna)
  with xs lo fold_min_le [of xs x] have "lo \<le> t" by auto
  then show ?thesis by (rule date_of_mono)
qed

lemma series_max_ge:
  assumes "series_max ts = Some hi" and "Some t \<in> set ts"
  shows "date_of t \<le> date_of hi"
proof -
  from assms(1) obtain x xs where xs: "dropna ts = x # xs" and hi: "hi = fold max xs x"
    by (auto simp: series_max_def split: list.splits)
  from assms(2) have "t \<in> set (dropna ts)" by (simp add: set_dropna)
  with xs hi fold_max_ge [of x xs] have "t \<le> hi" by auto
  then show ?thesis by (rule date_of_mono)
qed

lemma length_filter_present:
  assumes "\<And>t. Some t \<in> set ts \<Longrightarrow> p (Some (f t))" and "\<not> p None"
  shows "length (filter p (map (map_option f) ts)) = length (dropna ts)"
  using assms by (induction ts rule: dropna.induct) auto

lemma length_dropna_full: "None \<notin> set xs \<Longrightarrow> length (dropna xs) = length xs"
  by (induction xs rule: dropna.induct) auto

lemma series_min_present: "dropna ts \<noteq> [] \<Longrightarrow> \<exists>lo. series_min ts = Some lo"
  by (cases "dropna ts") (simp_all add: series_min_def)

lemma series_max_present: "dropna ts \<noteq> [] \<Longrightarrow> \<exists>hi. series_max ts = Some hi"
  by (cases "dropna ts") (simp_all add: series_max_def)

lemma sum_list_indicator:
  "sum_list (map (\<lambda>d. if x = d then (1::int) else 0) [lo..hi]) = (if lo \<le> x \<and> x \<le> hi then 1 else 0)"
proof -
  have "sum_list (map (\<lambda>d. if x = d then (1::int) else 0) [lo..hi])
          = (\<Sum>d \<in> {lo..hi}. if x = d then 1 else 0)"
    by (simp add: sum_list_distinct_conv_sum_set)
  also have "\<dots> = (if x \<in> {lo..hi} then 1 else 0)"
    by (rule sum.delta') simp
  finally show ?thesis by simp
qed

lemma sum_list_day_counts:
  "sum_list (map (\<lambda>d. int (length (filter (\<lambda>t. f t = d) xs))) [lo..hi])
     = int (length (filter (\<lambda>t. lo \<le> f t \<and> f t \<le> hi) xs))"
proof (induction xs)
  case Nil
  then show ?case by simp
next
  case (Cons x xs)
  have "sum_list (map (\<lambda>d. int (length (filter (\<lambda>t. f t = d) (x # xs)))) [lo..hi])
          = sum_list (map (\<lambda>d. (if f x = d then 1 else 0)
                                 + int (length (filter (\<lambda>t. f t = d) xs))) [lo..hi])"
    by (rule arg_cong [where f = sum_list]) simp
  also have "\<dots> = sum_list (map (\<lambda>d. if f x = d then 1 else 0) [lo..hi])
                   + sum_list (map (\<lambda>d. int (length (filter (\<lambda>t. f t = d) xs))) [lo..hi])"
    by (rule sum_list_addf)
  also have "\<dots> = (if lo \<le> f x \<and> f x \<le> hi then 1 else 0)
                   + int (length (filter (\<lambda>t. lo \<le> f t \<and> f t \<le> hi) xs))"
    by (simp only: sum_list_indicator Cons.IH)
  finally show ?case by simp
qed

lemma filter_fst_upto:
  "lo \<le> d \<Longrightarrow> d \<le> hi \<Longrightarrow>
     length (filter (\<lambda>(d', c). d' = d) (map (\<lambda>d. (d, g d)) [lo..hi])) = 1"
proof -
  assume d: "lo \<le> d" "d \<le> hi"
  have "length (filter (\<lambda>(d', c). d' = d) (map (\<lambda>d. (d, g d)) [lo..hi]))
          = length (filter (\<lambda>d'. d' = d) [lo..hi])"
    by (simp add: filter_map comp_def)
  also have "\<dots> = card ({d'. d' = d} \<inter> set [lo..hi])"
    by (rule distinct_length_filter) simp
  also have "{d'. d' = d} \<inter> set [lo..hi] = {d}"
    using d by auto
  also have "card {d} = 1"
    by simp
  finally show ?thesis .
qed

subsection \<open>The example data, evaluated\<close>

lemmas date_defs =
  ymd_def days_before_year_def days_before_month_def is_leap_def midnight_def date_of_def
  ns_per_day_def

lemmas frame_defs =
  getitem_def dt_date_def ge_date_def le_date_def mask_and_def getitem_mask_def select_def
  len_def wf_def pickup_dates_def

lemma ymd_jan_2023:
  "ymd 2023 1 1 = 19358" "ymd 2023 1 2 = 19359" "ymd 2023 1 3 = 19360"
  "ymd 2023 1 4 = 19361" "ymd 2023 1 5 = 19362"
  by (simp_all add: date_defs)

lemma wf_scenario_table: "wf scenario_table"
  by (simp add: wf_def scenario_table_def)

lemma pickup_scenario_table:
  "getitem scenario_table ''pickup_datetime''
     = Inr (DatetimeSeries [Some (midnight (ymd 2023 1 1)), Some (midnight (ymd 2023 1 2)),
                            Some (midnight (ymd 2023 1 5))])"
  by (simp add: getitem_def scenario_table_def)

lemma span_scenario_table:
  "min_date scenario_table = Inr (Some (ymd 2023 1 1))"
  "max_date scenario_table = Inr (Some (ymd 2023 1 5))"
  by (simp_all add: min_date_def max_date_def series_min_def series_max_def
        pickup_scenario_table date_defs)

lemma filter_scenario_table:
  "filter_data scenario_table (ymd 2023 1 1) (ymd 2023 1 2) = Inr first_two_days"
  by (simp add: filter_data_def scenario_table_def first_two_days_def frame_defs date_defs)

lemma filter_quiet_days:
  "filter_data scenario_table (ymd 2023 1 3) (ymd 2023 1 4) = Inr quiet_days"
  by (simp add: filter_data_def scenario_table_def quiet_days_def frame_defs date_defs)



subsection \<open>The date-range filter (C1)\<close>



subsection \<open>Daily counts (C2)\<close>

text \<open>
  Counterexample to C2 as stated (for every non-empty table, the counts add up to the
  row count): \<open>table_with_nat\<close>, where a pickup timestamp is missing, has two rows, and
  its daily counts are one trip on 2023-01-01.
\<close>

theorem aggregate_daily_trips_dense_counterexample:
  "aggregate_daily_trips table_with_nat = Inr [(ymd 2023 1 1, 1)]
   \<and> sum_list (map snd [(ymd 2023 1 1, 1 :: int)]) = 1
   \<and> len table_with_nat = 2"
  by (simp add: aggregate_daily_trips_def resample_size_def series_min_def series_max_def
        table_with_nat_def frame_defs date_defs)

text \<open>
  C2, amended. For every table with at least one pickup timestamp,
  \<^verbatim>\<open>aggregate_daily_trips\<close> returns a dense daily series: its days are exactly the
  calendar days from \<open>min_date\<close> to \<open>max_date\<close> in order, each once, every count is
  \<open>\<ge> 0\<close>, and the counts add up to the number of rows that have a pickup timestamp, which
  is the row count of the table when no pickup timestamp is missing.
\<close>

theorem aggregate_daily_trips_dense:
  assumes "wf df" and "getitem df ''pickup_datetime'' = Inr (DatetimeSeries ts)"
    and "dropna ts \<noteq> []"
  shows "\<exists>lo hi daily.
           min_date df = Inr (Some lo) \<and> max_date df = Inr (Some hi)
           \<and> aggregate_daily_trips df = Inr daily
           \<and> map fst daily = [lo..hi]
           \<and> (\<forall>d. lo \<le> d \<and> d \<le> hi \<longrightarrow> length (filter (\<lambda>(d', c). d' = d) daily) = 1)
           \<and> (\<forall>(d, c) \<in> set daily. 0 \<le> c)
           \<and> sum_list (map snd daily) = int (length (dropna ts))
           \<and> (None \<notin> set ts \<longrightarrow> sum_list (map snd daily) = int (len df))"
proof -
  from assms(3) obtain first last
    where first: "series_min ts = Some first" and last: "series_max ts = Some last"
    using series_min_present series_max_present by blast
  let ?lo = "date_of first" and ?hi = "date_of last"
  let ?count = "\<lambda>d. int (length (filter (\<lambda>t. date_of t = d) (dropna ts)))"
  let ?daily = "map (\<lambda>d. (d, ?count d)) [?lo..?hi]"
  from assms(3) have "ts \<noteq> []" by auto
  then have run: "aggregate_daily_trips df = Inr ?daily"
    using assms(2) first last by (simp add: aggregate_daily_trips_def resample_size_def)
  have lo: "min_date df = Inr (Some ?lo)"
    using assms(2) first by (simp add: min_date_def)
  have hi: "max_date df = Inr (Some ?hi)"
    using assms(2) last by (simp add: max_date_def)
  have days: "map fst ?daily = [?lo..?hi]"
    by (simp add: comp_def)
  have once: "\<forall>d. ?lo \<le> d \<and> d \<le> ?hi \<longrightarrow> length (filter (\<lambda>(d', c). d' = d) ?daily) = 1"
    using filter_fst_upto [of ?lo _ ?hi ?count] by blast
  have nonneg: "\<forall>(d, c) \<in> set ?daily. 0 \<le> c"
    by auto
  have "sum_list (map snd ?daily) = sum_list (map ?count [?lo..?hi])"
    by (simp add: comp_def)
  also have "\<dots> = int (length (filter (\<lambda>t. ?lo \<le> date_of t \<and> date_of t \<le> ?hi) (dropna ts)))"
    by (rule sum_list_day_counts)
  also have "filter (\<lambda>t. ?lo \<le> date_of t \<and> date_of t \<le> ?hi) (dropna ts) = dropna ts"
    using series_min_le [OF first] series_max_ge [OF last] by (simp add: set_dropna)
  finally have total: "sum_list (map snd ?daily) = int (length (dropna ts))" .
  have rows: "length ts = length (index df)"
    using wf_getitem [OF assms(1,2)] by simp
  have all_rows: "sum_list (map snd ?daily) = int (len df)" if "None \<notin> set ts"
    using total length_dropna_full [OF that] rows by (simp add: len_def)
  from lo hi run days once nonneg total all_rows show ?thesis
    by blast
qed

text \<open>The scenario table: the five days of its span, three trips in all.\<close>

theorem aggregate_daily_trips_dense_witness:
  "wf scenario_table
   \<and> getitem scenario_table ''pickup_datetime''
       = Inr (DatetimeSeries [Some (midnight (ymd 2023 1 1)), Some (midnight (ymd 2023 1 2)),
                              Some (midnight (ymd 2023 1 5))])
   \<and> dropna [Some (midnight (ymd 2023 1 1)), Some (midnight (ymd 2023 1 2)),
              Some (midnight (ymd 2023 1 5))] \<noteq> []
   \<and> (\<exists>daily. aggregate_daily_trips scenario_table = Inr daily
          \<and> map fst daily = [ymd 2023 1 1..ymd 2023 1 5]
          \<and> sum_list (map snd daily) = 3
          \<and> sum_list (map snd daily) = int (len scenario_table))"
proof -
  have some: "dropna [Some (midnight (ymd 2023 1 1)), Some (midnight (ymd 2023 1 2)),
              Some (midnight (ymd 2023 1 5))] \<noteq> []"
    by simp
  from aggregate_daily_trips_dense [OF wf_scenario_table pickup_scenario_table some]
  obtain lo hi daily where d: "min_date scenario_table = Inr (Some lo)"
      "max_date scenario_table = Inr (Some hi)"
      "aggregate_daily_trips scenario_table = Inr daily"
      "map fst daily = [lo..hi]"
      "sum_list (map snd daily) = int (length (dropna [Some (midnight (ymd 2023 1 1)),
          Some (midnight (ymd 2023 1 2)), Some (midnight (ymd 2023 1 5))]))"
      "sum_list (map snd daily) = int (len scenario_table)"
    by auto
  from d(1,2) have "lo = ymd 2023 1 1" "hi = ymd 2023 1 5"
    by (simp_all add: span_scenario_table)
  with d some wf_scenario_table pickup_scenario_table show ?thesis
    by auto
qed

subsection \<open>The summary of an empty table (C3)\<close>

text \<open>
  C3. On an empty table with numeric columns \<^verbatim>\<open>trip_miles\<close> and
  \<^verbatim>\<open>base_passenger_fare\<close>, \<^verbatim>\<open>summarize\<close> raises nothing and returns 0 trips, a revenue
  of 0, and for both averages the value pandas gives the mean of no cells (\<^verbatim>\<open>NaN\<close>,
  here \<open>None\<close>).
\<close>

theorem summarize_empty:
  assumes "wf df" and "len df = 0"
    and "getitem df ''trip_miles'' = Inr (FloatSeries p xs)"
    and "getitem df ''base_passenger_fare'' = Inr (FloatSeries q ys)"
  shows "summarize df =
           Inr \<lparr> total_trips = 0, avg_distance = None, avg_fare = None, total_revenue = 0 \<rparr>"
proof -
  from wf_getitem [OF assms(1,3)] assms(2) have "xs = []"
    by (simp add: len_def)
  moreover from wf_getitem [OF assms(1,4)] assms(2) have "ys = []"
    by (simp add: len_def)
  ultimately show ?thesis
    using assms(2,3,4) by (simp add: summarize_def)
qed

text \<open>The scenario table filtered to 2023-01-03 .. 2023-01-04, two days without a trip.\<close>

theorem summarize_empty_witness:
  "filter_data scenario_table (ymd 2023 1 3) (ymd 2023 1 4) = Inr quiet_days
   \<and> wf quiet_days \<and> len quiet_days = 0
   \<and> getitem quiet_days ''trip_miles'' = Inr (FloatSeries Float64 [])
   \<and> getitem quiet_days ''base_passenger_fare'' = Inr (FloatSeries Float64 [])
   \<and> summarize quiet_days =
       Inr \<lparr> total_trips = 0, avg_distance = None, avg_fare = None, total_revenue = 0 \<rparr>"
proof -
  have h: "wf quiet_days" "len quiet_days = 0"
    "getitem quiet_days ''trip_miles'' = Inr (FloatSeries Float64 [])"
    "getitem quiet_days ''base_passenger_fare'' = Inr (FloatSeries Float64 [])"
    by (simp_all add: quiet_days_def wf_def len_def getitem_def)
  from summarize_empty [OF h] h filter_quiet_days show ?thesis
    by simp
qed

subsection \<open>The end-to-end scenario (C4)\<close>

text \<open>
  C4. The end-to-end scenario: filtering the three-row table to 2023-01-01 .. 2023-01-02
  gives two rows, an average distance of 4, an average fare of 9 and a revenue of 18;
  the daily counts of the whole table are 1, 1, 0, 0, 1 over 2023-01-01 .. 2023-01-05.
  All the numbers involved are small integers, which floating-point arithmetic adds and
  halves exactly.
\<close>

theorem end_to_end_scenario:
  "filter_data scenario_table (ymd 2023 1 1) (ymd 2023 1 2) = Inr first_two_days
   \<and> len first_two_days = 2
   \<and> summarize first_two_days =
       Inr \<lparr> total_trips = 2, avg_distance = Some 4, avg_fare = Some 9, total_revenue = 18 \<rparr>
   \<and> aggregate_daily_trips scenario_table =
       Inr [(ymd 2023 1 1, 1), (ymd 2023 1 2, 1), (ymd 2023 1 3, 0), (ymd 2023 1 4, 0),
            (ymd 2023 1 5, 1)]"
proof -
  have "len first_two_days = 2"
    by (simp add: first_two_days_def len_def)
  moreover have "summarize first_two_days =
       Inr \<lparr> total_trips = 2, avg_distance = Some 4, avg_fare = Some 9, total_revenue = 18 \<rparr>"
    by (simp add: summarize_def first_two_days_def getitem_def len_def)
  moreover have "[19358..19362] = [19358, 19359, 19360, 19361, 19362 :: int]"
    by (simp add: upto_rec1)
  then have "aggregate_daily_trips scenario_table =
       Inr [(ymd 2023 1 1, 1), (ymd 2023 1 2, 1), (ymd 2023 1 3, 0), (ymd 2023 1 4, 0),
            (ymd 2023 1 5, 1)]"
    by (simp add: aggregate_daily_trips_def resample_size_def series_min_def series_max_def
          scenario_table_def getitem_def date_defs)
  ultimately show ?thesis
    using filter_scenario_table by simp
qed

subsection \<open>Cached loading (C5)\<close>

lemma cache_lookup_fresh:
  "now < stored + life \<Longrightarrow>
     cache_lookup (Some life) now (cache(key \<mapsto> (v, stored))) key = Some v"
  by (simp add: cache_lookup_def)

lemma load_data_body_disk: "load_data_body disk data_path = Inr narrowed_trips"
  by (simp add: load_data_body_def read_parquet_def disk_def stored_trips_def
        scenario_table_def narrowed_trips_def columns_to_use_def narrow_def getitem_def
        setitem_def)

text \<open>
  C5. When a call of \<^verbatim>\<open>load_data\<close> at time \<open>t1\<close> reads the file (nothing alive is
  cached for the path) and returns a table, a second call with the same path at a time
  \<open>t2\<close> less than 3600 seconds later returns the same table and leaves the process as it
  is: the file has been read once by the two calls, whatever has become of it meanwhile.
\<close>

theorem load_data_cached:
  assumes "cache_lookup (Some 3600) t1 (load_data_cache st) file_path = None"
    and "load_data fs t1 file_path st = (Inr df, st1)"
    and "t1 \<le> t2" and "t2 < t1 + 3600"
  shows "load_data fs' t2 file_path st1 = (Inr df, st1) \<and> reads st1 = reads st + 1"
proof -
  from assms(1,2) have body: "load_data_body fs file_path = Inr df"
    and st1: "st1 = st\<lparr>load_data_cache := (load_data_cache st)(file_path \<mapsto> (df, t1)),
                        reads := reads st + 1\<rparr>"
    by (auto simp: load_data_def split: sum.splits)
  have "cache_lookup (Some 3600) t2 (load_data_cache st1) file_path = Some df"
    using assms(4) by (simp add: st1 cache_lookup_fresh)
  then have "load_data fs' t2 file_path st1 = (Inr df, st1)"
    by (simp add: load_data_def)
  moreover have "reads st1 = reads st + 1"
    by (simp add: st1)
  ultimately show ?thesis ..
qed

text \<open>
  Two calls 3599 seconds apart, the file deleted in between: the second call still
  returns the table, and one read is counted.
\<close>

theorem load_data_cached_witness:
  "cache_lookup (Some 3600) 0 (load_data_cache fresh) data_path = None
   \<and> (0::nat) \<le> 3599 \<and> (3599::nat) < 0 + 3600
   \<and> (\<exists>st1. load_data disk 0 data_path fresh = (Inr narrowed_trips, st1)
          \<and> load_data Map.empty 3599 data_path st1 = (Inr narrowed_trips, st1)
          \<and> reads st1 = 1)"
proof -
  have miss: "cache_lookup (Some 3600) 0 (load_data_cache fresh) data_path = None"
    by (simp add: cache_lookup_def fresh_def)
  obtain st1 where first: "load_data disk 0 data_path fresh = (Inr narrowed_trips, st1)"
    by (simp add: load_data_def miss load_data_body_disk)
  from load_data_cached [OF miss first, of 3599 Map.empty]
  have "load_data Map.empty 3599 data_path st1 = (Inr narrowed_trips, st1)
          \<and> reads st1 = reads fresh + 1"
    by simp
  with miss first show ?thesis
    by (simp add: fresh_def)
qed

text \<open>
  The loader the dashboard calls is cached without a time limit, failures included: a
  second call returns what the first one did and reads nothing.
\<close>

lemma load_parquet_data_cached:
  assumes "load_parquet_data fs t1 file_path st = (r, st1)"
  shows "load_parquet_data fs' t2 file_path st1 = (r, st1) \<and> reads st1 \<le> reads st + 1"
proof (cases "load_parquet_data_cache st file_path")
  case None
  with assms have "st1 = st\<lparr>load_parquet_data_cache :=
        (load_parquet_data_cache st)(file_path \<mapsto> (r, t1)), reads := reads st + 1\<rparr>"
    by (auto simp: load_parquet_data_def cache_lookup_def Let_def)
  then show ?thesis
    by (simp add: load_parquet_data_def cache_lookup_def)
next
  case (Some entry)
  with assms have "st1 = st" and "fst entry = r"
    by (auto simp: load_parquet_data_def cache_lookup_def split: prod.splits)
  with Some show ?thesis
    by (auto simp: load_parquet_data_def cache_lookup_def split: prod.splits)
qed

subsection \<open>The columns the dashboard loads (C6)\<close>

text \<open>
  C6. The table the dashboard works on comes from \<^verbatim>\<open>load_parquet_data\<close>, which reads
  the whole file: on a file with a sixth column and double-precision numbers it returns
  all six columns, \<^verbatim>\<open>trip_miles\<close> and \<^verbatim>\<open>base_passenger_fare\<close> still in double
  precision. The claim (five columns only, reduced precision) does not hold of it.
\<close>

theorem load_parquet_data_reads_every_column:
  "fst (load_parquet_data disk 0 data_path fresh) = Some stored_trips
   \<and> map fst (columns stored_trips) = columns_to_use @ [''tips'']
   \<and> getitem stored_trips ''trip_miles'' = Inr (FloatSeries Float64 [Some 5, Some 3, Some 1])
   \<and> getitem stored_trips ''base_passenger_fare''
       = Inr (FloatSeries Float64 [Some 10, Some 8, Some 4])"
  by (simp add: load_parquet_data_def load_parquet_data_body_def read_parquet_def
        cache_lookup_def fresh_def disk_def stored_trips_def scenario_table_def
        columns_to_use_def getitem_def Let_def)

lemma pick_columns_names:
  "pick_columns cs names = Inr picked \<Longrightarrow> map fst picked = names"
  by (induction names arbitrary: picked) (auto split: option.splits sum.splits)

lemma columns_narrow:
  "narrow df name = Inr df' \<Longrightarrow> map fst (columns df') = map fst (columns df)"
proof -
  assume "narrow df name = Inr df'"
  then obtain s s' where s: "getitem df name = Inr s" and df': "df' = setitem df name s'"
    by (auto simp: narrow_def split: sum.splits)
  from s have "map_of (columns df) name = Some s"
    by (simp add: getitem_def split: option.splits)
  then have "(name, s) \<in> set (columns df)"
    by (rule map_of_SomeD)
  then have "name \<in> set (map fst (columns df))"
    by force
  with df' show ?thesis
    by (auto simp: setitem_def)
qed

text \<open>
  \<^verbatim>\<open>load_data\<close>, which the dashboard never calls, does restrict the table to the five
  columns, and narrows the two numeric ones.
\<close>

lemma load_data_body_columns:
  assumes "load_data_body fs file_path = Inr df"
  shows "map fst (columns df) = columns_to_use"
proof -
  from assms obtain raw df' where raw: "read_parquet fs file_path (Some columns_to_use) = Inr raw"
    and n1: "narrow raw ''trip_miles'' = Inr df'"
    and n2: "narrow df' ''base_passenger_fare'' = Inr df"
    by (auto simp: load_data_body_def split: sum.splits)
  from raw have "map fst (columns raw) = columns_to_use"
    by (auto simp: read_parquet_def split: option.splits sum.splits dest: pick_columns_names)
  with columns_narrow [OF n1] columns_narrow [OF n2] show ?thesis
    by simp
qed

lemma load_data_narrows:
  "map fst (columns narrowed_trips) = columns_to_use
   \<and> getitem narrowed_trips ''trip_miles'' = Inr (FloatSeries Float32 [Some 5, Some 3, Some 1])
   \<and> getitem narrowed_trips ''base_passenger_fare''
       = Inr (FloatSeries Float32 [Some 10, Some 8, Some 4])"
  by (simp add: narrowed_trips_def columns_to_use_def getitem_def)

subsection \<open>The password after the comparison (C7)\<close>

text \<open>
  C7. After the comparison has failed, the password the user typed is still in the
  session state: \<^verbatim>\<open>password_entered\<close> deletes it in the branch of a match only. The
  claim (discarded after a failed comparison too) does not hold.
\<close>

theorem password_entered_mismatch_keeps_password:
  "password_entered configured wrong_attempt
     = Inr (wrong_attempt(''password_correct'' \<mapsto> Flag False))
   \<and> (wrong_attempt(''password_correct'' \<mapsto> Flag False)) ''password'' = Some (Str ''guess'')"
  by (simp add: password_entered_def configured_def wrong_attempt_def)

lemma password_entered_match_discards:
  assumes "session ''password'' = Some v" and "secrets ''password'' = Some v"
  shows "\<exists>s'. password_entered secrets session = Inr s' \<and> s' ''password'' = None
           \<and> s' ''password_correct'' = Some (Flag True)"
  using assms by (simp add: password_entered_def)

lemma password_entered_mismatch_retains:
  assumes "session ''password'' = Some v" and "secrets ''password'' = Some w" and "v \<noteq> w"
  shows "\<exists>s'. password_entered secrets session = Inr s' \<and> s' ''password'' = Some v
           \<and> s' ''password_correct'' = Some (Flag False)"
  using assms by (simp add: password_entered_def)

subsection \<open>The column check (C8)\<close>

text \<open>
  Counterexample to C8 as stated (five required columns): a table without
  \<^verbatim>\<open>dispatching_base_num\<close> passes the check, and the dashboard is rendered.
\<close>

theorem dashboard_accepts_missing_dispatch_counterexample:
  "''dispatching_base_num'' \<notin> set (map fst (columns table_without_dispatch))
   \<and> missing_cols table_without_dispatch = []
   \<and> dashboard table_without_dispatch (ymd 2023 1 1, ymd 2023 1 1)
       = Rendered \<lparr> total_trips = 1, avg_distance = Some 5, avg_fare = Some 10,
                    total_revenue = 10 \<rparr>
           (Some [(ymd 2023 1 1, 1)])"
  by (simp add: dashboard_def missing_cols_def required_cols_def table_without_dispatch_def
        filter_data_def summarize_def aggregate_daily_trips_def resample_size_def
        series_min_def series_max_def frame_defs date_defs)

text \<open>
  C8, amended. If any of the four columns \<^verbatim>\<open>pickup_datetime\<close>, \<^verbatim>\<open>dropoff_datetime\<close>,
  \<^verbatim>\<open>trip_miles\<close>, \<^verbatim>\<open>base_passenger_fare\<close> is absent from the table, the run stops at
  the column check and reports the names of the absent ones among these four, and
  nothing else is computed.
\<close>

theorem dashboard_halts_on_missing_columns:
  assumes "c \<in> {''pickup_datetime'', ''dropoff_datetime'', ''trip_miles'', ''base_passenger_fare''}"
    and "c \<notin> set (map fst (columns df))"
  shows "dashboard df date_range = MissingRequiredColumns (missing_cols df)
           \<and> c \<in> set (missing_cols df)
           \<and> set (missing_cols df)
               = {n \<in> {''pickup_datetime'', ''dropoff_datetime'', ''trip_miles'',
                        ''base_passenger_fare''}. n \<notin> set (map fst (columns df))}"
proof -
  have req: "set required_cols
      = {''pickup_datetime'', ''dropoff_datetime'', ''trip_miles'', ''base_passenger_fare''}"
    by (simp add: required_cols_def)
  have all: "set (missing_cols df) = {n \<in> set required_cols. n \<notin> set (map fst (columns df))}"
    by (simp add: missing_cols_def)
  with assms req have c: "c \<in> set (missing_cols df)"
    by simp
  then have "missing_cols df \<noteq> []"
    by auto
  then have "dashboard df date_range = MissingRequiredColumns (missing_cols df)"
    by (simp add: dashboard_def)
  with c all req show ?thesis
    by simp
qed

text \<open>A table without \<^verbatim>\<open>trip_miles\<close> and \<^verbatim>\<open>dropoff_datetime\<close>: both are reported.\<close>

theorem dashboard_halts_on_missing_columns_witness:
  "''trip_miles'' \<in> {''pickup_datetime'', ''dropoff_datetime'', ''trip_miles'', ''base_passenger_fare''}
   \<and> ''trip_miles'' \<notin> set (map fst (columns table_without_miles))
   \<and> dashboard table_without_miles (ymd 2023 1 1, ymd 2023 1 1)
       = MissingRequiredColumns [''dropoff_datetime'', ''trip_miles'']"
proof -
  have h: "''trip_miles'' \<in> {''pickup_datetime'', ''dropoff_datetime'', ''trip_miles'', ''base_passenger_fare''}"
    "''trip_miles'' \<notin> set (map fst (columns table_without_miles))"
    by (simp_all add: table_without_miles_def)
  have "missing_cols table_without_miles = [''dropoff_datetime'', ''trip_miles'']"
    by (simp add: missing_cols_def required_cols_def table_without_miles_def)
  with dashboard_halts_on_missing_columns [OF h, of "(ymd 2023 1 1, ymd 2023 1 1)"] h
  show ?thesis
    by simp
qed

subsection \<open>The filter over the full span (C9)\<close>

text \<open>
  Counterexample to C9 as stated (for every table, the filter over
  \<open>[min_date, max_date]\<close> keeps the row count): \<open>table_with_nat\<close>, where a pickup
  timestamp is missing, has two rows and the span 2023-01-01 to 2023-01-01, and the
  filter over that span returns one row.
\<close>

theorem filter_data_full_span_counterexample:
  "min_date table_with_nat = Inr (Some (ymd 2023 1 1))
   \<and> max_date table_with_nat = Inr (Some (ymd 2023 1 1))
   \<and> map_sum id len (filter_data table_with_nat (ymd 2023 1 1) (ymd 2023 1 1)) = Inr 1
   \<and> len table_with_nat = 2"
  by (simp add: min_date_def max_date_def series_min_def series_max_def filter_data_def
        table_with_nat_def frame_defs date_defs)

text \<open>
  C9, amended. For every table whose date span exists (\<open>min_date\<close> and \<open>max_date\<close> are
  dates), \<^verbatim>\<open>filter_data\<close> over \<open>[min_date, max_date]\<close> returns a table whose row count
  is the number of input rows with a pickup timestamp; it equals the row count of the
  input when no pickup timestamp is missing.
\<close>

theorem filter_data_full_span:
  assumes "wf df" and "getitem df ''pickup_datetime'' = Inr (DatetimeSeries ts)"
    and "min_date df = Inr (Some lo)" and "max_date df = Inr (Some hi)"
  shows "\<exists>out. filter_data df lo hi = Inr out
           \<and> len out = length (dropna ts)
           \<and> (None \<notin> set ts \<longrightarrow> len out = len df)"
proof -
  let ?p = "\<lambda>c. case c of None \<Rightarrow> False | Some d \<Rightarrow> lo \<le> d \<and> d \<le> hi"
  let ?ds = "map (map_option date_of) ts"
  let ?out = "getitem_mask df (map ?p ?ds)"
  have run: "filter_data df lo hi = Inr ?out"
    using assms(2) by (rule filter_data_datetime)
  have rows: "length (index df) = length ?ds"
    using wf_getitem [OF assms(1,2)] by simp
  from assms(2,3) obtain first where first: "series_min ts = Some first" "lo = date_of first"
    by (auto simp: min_date_def)
  from assms(2,4) obtain last where last: "series_max ts = Some last" "hi = date_of last"
    by (auto simp: max_date_def)
  have "len ?out = length (filter ?p ?ds)"
    using length_select_map [OF rows, of ?p] by (simp add: len_def getitem_mask_def)
  also have "\<dots> = length (dropna ts)"
  proof (rule length_filter_present)
    fix t assume "Some t \<in> set ts"
    then show "?p (Some (date_of t))"
      using series_min_le [OF first(1)] series_max_ge [OF last(1)] first(2) last(2) by simp
  qed simp
  finally have n: "len ?out = length (dropna ts)" .
  have "len ?out = len df" if "None \<notin> set ts"
    using n length_dropna_full [OF that] rows by (simp add: len_def)
  with run n show ?thesis by blast
qed

text \<open>The scenario table over its span, 2023-01-01 to 2023-01-05: all three rows.\<close>

theorem filter_data_full_span_witness:
  "wf scenario_table
   \<and> getitem scenario_table ''pickup_datetime''
       = Inr (DatetimeSeries [Some (midnight (ymd 2023 1 1)), Some (midnight (ymd 2023 1 2)),
                              Some (midnight (ymd 2023 1 5))])
   \<and> min_date scenario_table = Inr (Some (ymd 2023 1 1))
   \<and> max_date scenario_table = Inr (Some (ymd 2023 1 5))
   \<and> (\<exists>out. filter_data scenario_table (ymd 2023 1 1) (ymd 2023 1 5) = Inr out
          \<and> len out = 3 \<and> len out = len scenario_table)"
  using filter_data_full_span [OF wf_scenario_table pickup_scenario_table span_scenario_table]
    wf_scenario_table pickup_scenario_table span_scenario_table
  by auto

subsection \<open>Rows without a pickup timestamp (C10)\<close>


end
